theory Spec2Isabelle
  imports Main "HOL-Library.Word"
begin

unbundle bit_operations_syntax

section \<open>FAT32 / GPT image tools of webbOS\<close>

text \<open>
  A shallow embedding of the Python image tools: \<^verbatim>\<open>tools/create-fat32-image.py\<close>,
  \<^verbatim>\<open>tools/create-gpt-image.py\<close>, \<^verbatim>\<open>tools/copy-to-image.py\<close> and \<^verbatim>\<open>update-image.py\<close>.
  Python integers are \<^typ>\<open>int\<close> (\<open>div\<close> is Python's floor division \<^verbatim>\<open>//\<close>),
  a \<^verbatim>\<open>bytes\<close>/\<^verbatim>\<open>bytearray\<close> value is a list of 8-bit words.
\<close>

type_synonym byte = "8 word"
type_synonym bytes = "byte list"

subsection \<open>Two-pass FAT sizing (both volume builders)\<close>

text \<open>
  \<^verbatim>\<open>create_efi_bootable_image\<close> (create-fat32-image.py, lines 184-190) and
  \<^verbatim>\<open>create_gpt_efi_image\<close> (create-gpt-image.py, lines 43-51) run the same arithmetic on
  the number of sectors of the partition, with \<open>sectors_per_cluster = 8\<close>,
  \<open>reserved_sectors = 32\<close>, \<open>num_fats = 2\<close> and 512-byte sectors.
\<close>

definition sectors_per_cluster_c :: int where "sectors_per_cluster_c = 8"
definition reserved_sectors_c :: int where "reserved_sectors_c = 32"
definition num_fats_c :: int where "num_fats_c = 2"
definition sector_size_c :: int where "sector_size_c = 512"

record fat_sizing =
  fs_sectors_per_fat :: int
  fs_data_sectors :: int
  fs_num_clusters :: int

definition size_fat :: "int \<Rightarrow> fat_sizing" where
  "size_fat partition_sectors =
    (let data_sectors = partition_sectors - reserved_sectors_c;
         num_clusters = data_sectors div sectors_per_cluster_c;
         sectors_per_fat = (num_clusters * 4 + sector_size_c - 1) div sector_size_c + 1;
         data_sectors = partition_sectors - reserved_sectors_c - num_fats_c * sectors_per_fat;
         num_clusters = data_sectors div sectors_per_cluster_c
     in \<lparr> fs_sectors_per_fat = sectors_per_fat,
          fs_data_sectors = data_sectors,
          fs_num_clusters = num_clusters \<rparr>)"

text \<open>The partition sizes the two builders pass: a 64 MiB disk, partition at sector 2048.\<close>

definition mbr_partition_sectors :: int where
  "mbr_partition_sectors = (64 * 1024 * 1024) div 512 - 2048"

definition gpt_esp_sectors :: int where
  "gpt_esp_sectors =
    (let total_sectors = (64 * 1024 * 1024) div 512;
         last_usable_lba = total_sectors - 34;
         esp_start = 2048;
         esp_end = last_usable_lba - 1
     in esp_end - esp_start + 1)"

section \<open>Theorems\<close>

subsection \<open>C9: the FAT is large enough\<close>

lemma size_fat_first_pass:
  fixes n :: int
  shows "n + 128 \<le> ((n * 4 + 512 - 1) div 512 + 1) * 512 div 4"
proof -
  define q where "q = (n * 4 + 511) div 512"
  have "(n * 4 + 511) mod 512 < 512" by simp
  then have "n * 4 + 511 < (q + 1) * 512"
    unfolding q_def by (simp add: algebra_simps minus_mod_eq_mult_div [symmetric])
  then have "n * 4 < (q * 128 + 1) * 4" by (simp add: algebra_simps)
  then have le: "n \<le> q * 128" by simp
  have "((n * 4 + 512 - 1) div 512 + 1) * 512 div 4 = (q + 1) * 128"
    unfolding q_def by simp
  also have "\<dots> = q * 128 + 128" by (simp add: algebra_simps)
  finally show ?thesis using le by (simp only: add_le_cancel_right)
qed

text \<open>
  C9. For every (non-negative) partition sector count, the FAT that the two-pass sizing
  reserves has room for the final cluster count plus the two reserved entries:
  \<open>sectors_per_fat * bytes_per_sector div 4 \<ge> num_clusters + 2\<close>.
\<close>

theorem fat_sizing_sufficient:
  assumes "0 \<le> ps"
  shows "fs_num_clusters (size_fat ps) + 2
           \<le> fs_sectors_per_fat (size_fat ps) * sector_size_c div 4"
proof -
  define n0 where "n0 = (ps - 32) div 8"
  define spf where "spf = (n0 * 4 + 512 - 1) div 512 + 1"
  have "- 4 \<le> n0" unfolding n0_def using assms by simp
  then have "0 \<le> (n0 * 4 + 512 - 1) div 512" by simp
  then have spf_pos: "1 \<le> spf" unfolding spf_def by simp
  have big: "n0 + 128 \<le> spf * 512 div 4"
    unfolding spf_def by (rule size_fat_first_pass)
  have "(ps - 32 - 2 * spf) div 8 \<le> n0"
    unfolding n0_def using spf_pos by (intro zdiv_mono1) simp_all
  with big have "(ps - 32 - 2 * spf) div 8 + 2 \<le> spf * 512 div 4" by simp
  then show ?thesis
    by (simp add: size_fat_def Let_def sectors_per_cluster_c_def reserved_sectors_c_def
        num_fats_c_def sector_size_c_def n0_def spf_def)
qed

theorem fat_sizing_sufficient_witness:
  "(0::int) \<le> mbr_partition_sectors \<and>
   fs_sectors_per_fat (size_fat mbr_partition_sectors) = 127 \<and>
   fs_num_clusters (size_fat mbr_partition_sectors) = 16092 \<and>
   fs_num_clusters (size_fat mbr_partition_sectors) + 2
     \<le> fs_sectors_per_fat (size_fat mbr_partition_sectors) * sector_size_c div 4"
proof -
  have h: "(0::int) \<le> mbr_partition_sectors" by (simp add: mbr_partition_sectors_def)
  have v: "size_fat mbr_partition_sectors =
      \<lparr> fs_sectors_per_fat = 127, fs_data_sectors = 128738, fs_num_clusters = 16092 \<rparr>"
    by (simp add: size_fat_def Let_def mbr_partition_sectors_def sectors_per_cluster_c_def
        reserved_sectors_c_def num_fats_c_def sector_size_c_def)
  from fat_sizing_sufficient [OF h] h v show ?thesis by simp
qed

end
